theory Spec2Isabelle
  imports Complex_Main "HOL-Library.Word"
begin

section \<open>Data model of \<open>node_perf.cc\<close>\<close>

text \<open>
  A shallow embedding of the performance instrumentation of \<open>src/node_perf.cc\<close>.
  Every function takes the state it touches and returns the new state.

  \<^item> \<open>uint64_t\<close> timestamps are \<open>64 word\<close>: subtraction wraps as in C++.
  \<^item> A \<open>double\<close> is modelled by the real number it denotes.  The conversion of an
    integer to \<open>double\<close> and the division by \<open>1e6\<close> are exact in the model; the
    rounding of IEEE arithmetic is not modelled.
  \<^item> A failed \<open>CHECK\<close> ends the process (\<open>Aborted\<close>).  An access outside an
    aliased buffer, or a call through an empty handle, is undefined behaviour in the
    source (\<open>Faulted\<close>).
\<close>

type_synonym uint64 = "64 word"
type_synonym uint32 = "32 word"
type_synonym double = real

datatype 'a outcome = Returned 'a | Aborted | Faulted

text \<open>\<open>#define NANOS_PER_MILLIS 1e6\<close>: nanoseconds in a millisecond.\<close>

definition NANOS_PER_MILLIS :: double where
  "NANOS_PER_MILLIS = 1000000"

text \<open>
  The enumerations \<open>PerformanceMilestone\<close> and \<open>PerformanceEntryType\<close> are generated
  in a header that is not part of the sources by the lists \<open>NODE_PERFORMANCE_MILESTONES\<close>
  and \<open>NODE_PERFORMANCE_ENTRY_TYPES\<close>; they are parameters here.  The identifiers
  are numbered from 0 in the order of the list and the \<open>INVALID\<close> identifier follows the
  last one, so it equals the number of identifiers.
\<close>

record perf_enums =
  NODE_PERFORMANCE_MILESTONES :: "string list"
  NODE_PERFORMANCE_ENTRY_TYPES :: "string list"
  NODE_PERFORMANCE_ENTRY_TYPE_GC :: nat

definition NODE_PERFORMANCE_MILESTONE_INVALID :: "perf_enums \<Rightarrow> nat" where
  "NODE_PERFORMANCE_MILESTONE_INVALID c = length (NODE_PERFORMANCE_MILESTONES c)"

definition NODE_PERFORMANCE_ENTRY_TYPE_INVALID :: "perf_enums \<Rightarrow> nat" where
  "NODE_PERFORMANCE_ENTRY_TYPE_INVALID c = length (NODE_PERFORMANCE_ENTRY_TYPES c)"

text \<open>
  \<open>AliasedBuffer::operator[]\<close>: the index is a \<open>size_t\<close>; an index outside the buffer
  is not an element of it (\<open>None\<close>).
\<close>

definition aliased_get :: "'a list \<Rightarrow> nat \<Rightarrow> 'a option" where
  "aliased_get xs i = (if i < length xs then Some (xs ! i) else None)"

definition aliased_set :: "'a list \<Rightarrow> nat \<Rightarrow> 'a \<Rightarrow> 'a list option" where
  "aliased_set xs i v = (if i < length xs then Some (xs[i := v]) else None)"

text \<open>
  \<open>PerformanceState\<close>: the two views of the shared region, the two fields of the GC
  cycle, and the instant events handed to the tracing sink (milestone, \<open>ts / 1000\<close>).
  \<open>serialize_info\<close> holds the snapshot indices a state constructed from a snapshot
  still has to load.
\<close>

record SerializeInfo =
  info_root :: nat
  info_milestones :: nat
  info_observers :: nat

record PerformanceState =
  milestones :: "double list"
  observers :: "uint32 list"
  performance_last_gc_start_mark :: uint64
  current_gc_type :: nat
  trace_events :: "(nat \<times> uint64) list"
  serialize_info :: "SerializeInfo option"

text \<open>\<open>GCPerformanceEntry\<close>: name, start time and duration in milliseconds, details.\<close>

record GCPerformanceEntry =
  entry_name :: string
  entry_start_time :: double
  entry_duration :: double
  details_kind :: nat
  details_flags :: nat

datatype CallbackFlags = kRefed | kUnrefed

record uv_loop =
  metrics_idle_time :: uint64

record IntervalHistogram =
  histogram_interval :: int
  histogram_options :: "int list"

text \<open>
  The part of \<open>Environment\<close> (and of its principal realm) that the file uses.
  \<open>immediates\<close> is the queue of \<open>SetImmediate\<close>: each task is the closure that calls
  \<open>entry->Notify(env)\<close>, represented by the entry it captured.  \<open>callback_calls\<close> records
  every call of the performance entry callback together with its argument.
\<close>

record ('f, 'v) Environment =
  performance_state :: PerformanceState
  time_origin :: uint64
  immediates :: "(GCPerformanceEntry \<times> CallbackFlags) list"
  performance_entry_callback :: "'f option"
  callback_calls :: "('f \<times> 'v) list"
  event_loop :: uv_loop
  histograms :: "IntervalHistogram list"

datatype RealmKind = kPrincipal | kShadowRealm

section \<open>Garbage collection tracking\<close>

text \<open>
  \<open>MarkGarbageCollectionStart\<close>; \<open>now\<close> is the value \<open>PERFORMANCE_NOW()\<close> reads.
\<close>

definition MarkGarbageCollectionStart ::
  "('f, 'v) Environment \<Rightarrow> nat \<Rightarrow> nat \<Rightarrow> uint64 \<Rightarrow> ('f, 'v) Environment" where
  "MarkGarbageCollectionStart env type flags now =
     (if current_gc_type (performance_state env) \<noteq> 0 then env
      else env\<lparr>performance_state := (performance_state env)
             \<lparr>performance_last_gc_start_mark := now, current_gc_type := type\<rparr>\<rparr>)"

text \<open>\<open>env->SetImmediate(cb, flags)\<close> appends the task to the queue.\<close>

definition SetImmediate ::
  "('f, 'v) Environment \<Rightarrow> GCPerformanceEntry \<Rightarrow> CallbackFlags \<Rightarrow> ('f, 'v) Environment" where
  "SetImmediate env entry flags = env\<lparr>immediates := immediates env @ [(entry, flags)]\<rparr>"

text \<open>\<open>MarkGarbageCollectionEnd\<close>\<close>

definition MarkGarbageCollectionEnd ::
  "perf_enums \<Rightarrow> ('f, 'v) Environment \<Rightarrow> nat \<Rightarrow> nat \<Rightarrow> uint64 \<Rightarrow> ('f, 'v) Environment outcome" where
  "MarkGarbageCollectionEnd c env type flags now =
     (let state = performance_state env in
      if type \<noteq> current_gc_type state then Returned env
      else
        let env1 = env\<lparr>performance_state := state\<lparr>current_gc_type := 0\<rparr>\<rparr> in
        case aliased_get (observers state) (NODE_PERFORMANCE_ENTRY_TYPE_GC c) of
          None \<Rightarrow> Faulted
        | Some n \<Rightarrow>
            if n = 0 then Returned env1
            else
              let start_time =
                    real (unat (performance_last_gc_start_mark state - time_origin env))
                      / NANOS_PER_MILLIS;
                  duration =
                    real (unat now) / NANOS_PER_MILLIS
                      - real (unat (performance_last_gc_start_mark state)) / NANOS_PER_MILLIS;
                  entry = \<lparr>entry_name = ''gc'', entry_start_time = start_time,
                           entry_duration = duration, details_kind = type,
                           details_flags = flags\<rparr>
              in Returned (SetImmediate env1 entry kUnrefed))"

text \<open>
  The signals of the collector: the prologue and the epilogue callback, each with the
  kind, the flags and the clock value at the time of the call.
\<close>

datatype gc_signal = GCPrologue nat nat uint64 | GCEpilogue nat nat uint64

fun gc_step ::
  "perf_enums \<Rightarrow> ('f, 'v) Environment \<Rightarrow> gc_signal \<Rightarrow> ('f, 'v) Environment outcome" where
  "gc_step c env (GCPrologue type flags now) =
     Returned (MarkGarbageCollectionStart env type flags now)"
| "gc_step c env (GCEpilogue type flags now) = MarkGarbageCollectionEnd c env type flags now"

fun gc_run ::
  "perf_enums \<Rightarrow> ('f, 'v) Environment \<Rightarrow> gc_signal list \<Rightarrow> ('f, 'v) Environment outcome" where
  "gc_run c env [] = Returned env"
| "gc_run c env (s # ss) =
     (case gc_step c env s of
        Returned env' \<Rightarrow> gc_run c env' ss
      | Aborted \<Rightarrow> Aborted
      | Faulted \<Rightarrow> Faulted)"

fun is_epilogue_of :: "nat \<Rightarrow> gc_signal \<Rightarrow> bool" where
  "is_epilogue_of k (GCEpilogue type flags now) = (type = k)"
| "is_epilogue_of k (GCPrologue type flags now) = False"

definition gc_type_of :: "('f, 'v) Environment \<Rightarrow> nat" where
  "gc_type_of env = current_gc_type (performance_state env)"

definition gc_mark_of :: "('f, 'v) Environment \<Rightarrow> uint64" where
  "gc_mark_of env = performance_last_gc_start_mark (performance_state env)"

text \<open>
  \<open>InstallGarbageCollectionTracking\<close> and \<open>GarbageCollectionCleanupHook\<close> reset
  \<open>current_gc_type\<close>; the registration of the two callbacks with the isolate is outside
  the model.
\<close>

definition InstallGarbageCollectionTracking ::
  "('f, 'v) Environment \<Rightarrow> ('f, 'v) Environment" where
  "InstallGarbageCollectionTracking env =
     env\<lparr>performance_state := (performance_state env)\<lparr>current_gc_type := 0\<rparr>\<rparr>"

definition GarbageCollectionCleanupHook ::
  "('f, 'v) Environment \<Rightarrow> ('f, 'v) Environment" where
  "GarbageCollectionCleanupHook env =
     env\<lparr>performance_state := (performance_state env)\<lparr>current_gc_type := 0\<rparr>\<rparr>"

section \<open>Milestones\<close>

text \<open>
  \<open>PerformanceState::Mark\<close>.  The milestone is an enumeration value used as the index
  of the buffer; a negative value is a \<open>size_t\<close> beyond every buffer.
\<close>

definition Mark :: "PerformanceState \<Rightarrow> int \<Rightarrow> uint64 \<Rightarrow> PerformanceState outcome" where
  "Mark st milestone ts =
     (if milestone < 0 then Faulted
      else case aliased_set (milestones st) (nat milestone) (real (unat ts)) of
             None \<Rightarrow> Faulted
           | Some ms \<Rightarrow>
               Returned (st\<lparr>milestones := ms,
                           trace_events := trace_events st @ [(nat milestone, ts div 1000)]\<rparr>))"

text \<open>
  \<open>MarkMilestone\<close>: \<open>arg0\<close> is the value of the \<open>Int32\<close> argument, \<open>now\<close> the value
  of \<open>PERFORMANCE_NOW()\<close> that the default argument of \<open>Mark\<close> reads.
\<close>

definition MarkMilestone ::
  "perf_enums \<Rightarrow> ('f, 'v) Environment \<Rightarrow> RealmKind \<Rightarrow> int \<Rightarrow> uint64
     \<Rightarrow> ('f, 'v) Environment outcome" where
  "MarkMilestone c env realm_kind arg0 now =
     (if realm_kind \<noteq> kPrincipal then Aborted
      else if arg0 \<noteq> int (NODE_PERFORMANCE_MILESTONE_INVALID c)
      then map_outcome (\<lambda>st. env\<lparr>performance_state := st\<rparr>)
             (Mark (performance_state env) arg0 now)
      else Returned env)"

section \<open>Observers and notification\<close>

datatype ('f, 'v) js_value = JSFunction 'f | JSOther 'v

text \<open>\<open>SetupPerformanceObservers\<close>\<close>

definition SetupPerformanceObservers ::
  "('f, 'v) Environment \<Rightarrow> RealmKind \<Rightarrow> ('f, 'v) js_value \<Rightarrow> ('f, 'v) Environment outcome" where
  "SetupPerformanceObservers env realm_kind arg0 =
     (if realm_kind \<noteq> kPrincipal then Aborted
      else case arg0 of
             JSOther v \<Rightarrow> Aborted
           | JSFunction f \<Rightarrow> Returned (env\<lparr>performance_entry_callback := Some f\<rparr>))"

text \<open>
  Modelled from the spec: \<open>ToPerformanceEntryTypeEnum\<close> is defined in a header that is
  not part of the sources.  The entry type name maps to the identifier of the entry type
  of that name, and to the \<open>INVALID\<close> identifier when there is none.
\<close>

fun entry_type_index :: "string list \<Rightarrow> string \<Rightarrow> nat" where
  "entry_type_index [] type = 0"
| "entry_type_index (v # vs) type = (if type = v then 0 else Suc (entry_type_index vs type))"

definition ToPerformanceEntryTypeEnum :: "perf_enums \<Rightarrow> string \<Rightarrow> nat" where
  "ToPerformanceEntryTypeEnum c type = entry_type_index (NODE_PERFORMANCE_ENTRY_TYPES c) type"

text \<open>
  \<open>Notify\<close>.  The result of the call of the callback is dropped (\<open>USE\<close>).  The callback
  handle of an environment without a registered callback is empty.
\<close>

definition Notify ::
  "perf_enums \<Rightarrow> ('f, 'v) Environment \<Rightarrow> string \<Rightarrow> 'v \<Rightarrow> ('f, 'v) Environment outcome" where
  "Notify c env type entry =
     (let entry_type = ToPerformanceEntryTypeEnum c type in
      if entry_type \<noteq> NODE_PERFORMANCE_ENTRY_TYPE_INVALID c
      then case aliased_get (observers (performance_state env)) entry_type of
             None \<Rightarrow> Faulted
           | Some n \<Rightarrow>
               if n \<noteq> 0
               then case performance_entry_callback env of
                      None \<Rightarrow> Faulted
                    | Some f \<Rightarrow>
                        Returned (env\<lparr>callback_calls := callback_calls env @ [(f, entry)]\<rparr>)
               else Returned env
      else Returned env)"

section \<open>Event loop\<close>

text \<open>
  \<open>LoopIdleTime\<close>: \<open>uv_metrics_idle_time\<close> reports the accumulated idle time of the loop
  in nanoseconds.  The function returns the environment as it found it, and the value
  it sets as the return value of the call.
\<close>

definition uv_metrics_idle_time :: "uv_loop \<Rightarrow> uint64" where
  "uv_metrics_idle_time loop = metrics_idle_time loop"

definition LoopIdleTime :: "('f, 'v) Environment \<Rightarrow> ('f, 'v) Environment \<times> double" where
  "LoopIdleTime env =
     (let idle_time = uv_metrics_idle_time (event_loop env)
      in (env, 1 * real (unat idle_time) / 1000000))"

text \<open>
  The reading of the specification: the accumulated idle time in seconds, that is the
  nanoseconds of the loop divided by \<open>1e9\<close>.
\<close>

definition spec_idle_time_seconds :: "('f, 'v) Environment \<Rightarrow> double" where
  "spec_idle_time_seconds env = real (unat (uv_metrics_idle_time (event_loop env))) / 1000000000"

text \<open>
  \<open>CreateELDHistogram\<close>: \<open>interval\<close> is an \<open>int64_t\<close>.  \<open>IntervalHistogram::Create\<close> is
  outside the sources; the model records the histogram it is asked for: the interval and
  the options \<open>Histogram::Options { 1000 }\<close>.
\<close>

definition CreateELDHistogram ::
  "('f, 'v) Environment \<Rightarrow> 64 word \<Rightarrow> (('f, 'v) Environment \<times> IntervalHistogram) outcome" where
  "CreateELDHistogram env interval =
     (if \<not> (sint interval > 0) then Aborted
      else
        let histogram = \<lparr>histogram_interval = sint interval, histogram_options = [1000]\<rparr>
        in Returned (env\<lparr>histograms := histograms env @ [histogram]\<rparr>, histogram))"

section \<open>Construction and snapshots\<close>

text \<open>The loop of the constructor: \<open>milestones[i] = -1.\<close> for every index.\<close>

definition reset_milestones :: "double list \<Rightarrow> double list" where
  "reset_milestones ms = map (\<lambda>_. - 1) ms"

datatype snapshot_data = SnapRoot | SnapFloat64 "double list" | SnapUint32 "uint32 list"

text \<open>
  Modelled from the spec: \<open>AliasedBufferBase::Serialize\<close> and \<open>Deserialize\<close> are defined in
  a header that is not part of the sources.  The region is saved and restored as an
  opaque block: \<open>Serialize\<close> adds the contents of the buffer to the data of the snapshot
  and returns its index, \<open>Deserialize\<close> loads the contents found at the index.
\<close>

definition AliasedBuffer_Serialize ::
  "snapshot_data list \<Rightarrow> snapshot_data \<Rightarrow> nat \<times> snapshot_data list" where
  "AliasedBuffer_Serialize ctx d = (length ctx, ctx @ [d])"

definition AliasedBuffer_Deserialize :: "snapshot_data list \<Rightarrow> nat \<Rightarrow> snapshot_data option" where
  "AliasedBuffer_Deserialize ctx i = (if i < length ctx then Some (ctx ! i) else None)"

text \<open>
  The constructor.  Without \<open>info\<close> the buffers are allocated (zero-filled) and every
  milestone is set to \<open>-1\<close>; with \<open>info\<close> the buffers are empty until \<open>Deserialize\<close>
  and no milestone is written.
\<close>

definition PerformanceState_new :: "perf_enums \<Rightarrow> SerializeInfo option \<Rightarrow> PerformanceState" where
  "PerformanceState_new c info =
     (case info of
        None \<Rightarrow>
          \<lparr>milestones = reset_milestones (replicate (NODE_PERFORMANCE_MILESTONE_INVALID c) 0),
           observers = replicate (NODE_PERFORMANCE_ENTRY_TYPE_INVALID c) 0,
           performance_last_gc_start_mark = 0, current_gc_type = 0,
           trace_events = [], serialize_info = None\<rparr>
      | Some i \<Rightarrow>
          \<lparr>milestones = [], observers = [],
           performance_last_gc_start_mark = 0, current_gc_type = 0,
           trace_events = [], serialize_info = Some i\<rparr>)"

text \<open>\<open>PerformanceState::Serialize\<close>: root, milestones, observers, in this order.\<close>

definition PerformanceState_Serialize ::
  "PerformanceState \<Rightarrow> snapshot_data list \<Rightarrow> SerializeInfo \<times> snapshot_data list" where
  "PerformanceState_Serialize st ctx =
     (let (r, ctx1) = AliasedBuffer_Serialize ctx SnapRoot;
          (m, ctx2) = AliasedBuffer_Serialize ctx1 (SnapFloat64 (milestones st));
          (ob, ctx3) = AliasedBuffer_Serialize ctx2 (SnapUint32 (observers st))
      in (\<lparr>info_root = r, info_milestones = m, info_observers = ob\<rparr>, ctx3))"

text \<open>
  \<open>PerformanceState::Deserialize\<close>: root, milestones, observers.  A missing index is a
  null pointer in the source; data of the wrong kind fails the checked conversion.
\<close>

definition PerformanceState_Deserialize ::
  "snapshot_data list \<Rightarrow> PerformanceState \<Rightarrow> PerformanceState outcome" where
  "PerformanceState_Deserialize ctx st =
     (case serialize_info st of
        None \<Rightarrow> Faulted
      | Some info \<Rightarrow>
          (case AliasedBuffer_Deserialize ctx (info_root info) of
             Some SnapRoot \<Rightarrow>
               (case AliasedBuffer_Deserialize ctx (info_milestones info) of
                  Some (SnapFloat64 ms) \<Rightarrow>
                    (case AliasedBuffer_Deserialize ctx (info_observers info) of
                       Some (SnapUint32 os) \<Rightarrow>
                         Returned (st\<lparr>milestones := ms, observers := os,
                                     serialize_info := None\<rparr>)
                     | _ \<Rightarrow> Aborted)
                | _ \<Rightarrow> Aborted)
           | _ \<Rightarrow> Aborted))"

text \<open>
  Modelled from the spec: the step that follows \<open>Deserialize\<close> is not part of the
  sources.  It resets all milestone slots to the sentinel.
\<close>

definition reinitialize_milestones :: "PerformanceState \<Rightarrow> PerformanceState" where
  "reinitialize_milestones st = st\<lparr>milestones := reset_milestones (milestones st)\<rparr>"

section \<open>Example values\<close>

definition ex_enums :: perf_enums where
  "ex_enums = \<lparr>NODE_PERFORMANCE_MILESTONES = [''environment'', ''nodeStart'', ''bootstrapComplete''],
               NODE_PERFORMANCE_ENTRY_TYPES = [''gc'', ''http''],
               NODE_PERFORMANCE_ENTRY_TYPE_GC = 0\<rparr>"

definition ex_state :: PerformanceState where
  "ex_state = (PerformanceState_new ex_enums None)\<lparr>observers := [1, 0]\<rparr>"

definition ex_env :: "(nat, nat) Environment" where
  "ex_env = \<lparr>performance_state = ex_state, time_origin = 0, immediates = [],
             performance_entry_callback = None, callback_calls = [],
             event_loop = \<lparr>metrics_idle_time = 2000000000\<rparr>, histograms = []\<rparr>"

definition ex_gc_signals :: "gc_signal list" where
  "ex_gc_signals = [GCPrologue 1 0 10, GCPrologue 2 0 20]"

definition ex_gc_env :: "(nat, nat) Environment" where
  "ex_gc_env = ex_env\<lparr>performance_state :=
                 ex_state\<lparr>performance_last_gc_start_mark := 5000000, current_gc_type := 1\<rparr>,
               time_origin := 2000000\<rparr>"

definition ex_gc_env_unobserved :: "(nat, nat) Environment" where
  "ex_gc_env_unobserved = ex_gc_env\<lparr>performance_state :=
                 (performance_state ex_gc_env)\<lparr>observers := [0, 0]\<rparr>\<rparr>"

definition ex_cycle :: "gc_signal list" where
  "ex_cycle = [GCPrologue 1 0 5000000, GCPrologue 2 0 7000000, GCEpilogue 2 0 8000000]"

definition ex_cycle_env :: "(nat, nat) Environment" where
  "ex_cycle_env = ex_env\<lparr>performance_state :=
                 ex_state\<lparr>performance_last_gc_start_mark := 5000000, current_gc_type := 1\<rparr>\<rparr>"

definition ex_cycle_entry :: GCPerformanceEntry where
  "ex_cycle_entry = \<lparr>entry_name = ''gc'', entry_start_time = 5, entry_duration = 50,
                     details_kind = 1, details_flags = 0\<rparr>"

definition ex_env_registered :: "(nat, nat) Environment" where
  "ex_env_registered = ex_env\<lparr>performance_entry_callback := Some 3\<rparr>"

definition ex_marked_state :: PerformanceState where
  "ex_marked_state = ex_state\<lparr>milestones := [- 1, 100, - 1], trace_events := [(1, 0)]\<rparr>"

section \<open>The garbage collection cycle\<close>

lemma gc_run_snoc:
  "gc_run c env (ss @ [s]) =
     (case gc_run c env ss of Returned e \<Rightarrow> gc_step c e s | Aborted \<Rightarrow> Aborted | Faulted \<Rightarrow> Faulted)"
  by (induction ss arbitrary: env) (auto split: outcome.splits)

lemma start_ignored:
  "gc_type_of env \<noteq> 0 \<Longrightarrow> MarkGarbageCollectionStart env type flags now = env"
  by (simp add: MarkGarbageCollectionStart_def gc_type_of_def)

lemma start_accepted:
  "gc_type_of env = 0 \<Longrightarrow>
     gc_type_of (MarkGarbageCollectionStart env type flags now) = type \<and>
     gc_mark_of (MarkGarbageCollectionStart env type flags now) = now"
  by (simp add: MarkGarbageCollectionStart_def gc_type_of_def gc_mark_of_def)

lemma end_mismatch:
  "type \<noteq> gc_type_of env \<Longrightarrow> MarkGarbageCollectionEnd c env type flags now = Returned env"
  by (simp add: MarkGarbageCollectionEnd_def gc_type_of_def)

lemma end_match:
  "type = gc_type_of env \<Longrightarrow> MarkGarbageCollectionEnd c env type flags now = Returned env'
     \<Longrightarrow> gc_type_of env' = 0"
  by (auto simp: MarkGarbageCollectionEnd_def gc_type_of_def SetImmediate_def Let_def
      split: option.splits if_splits)

lemma gc_step_cases:
  assumes "gc_step c e s = Returned env" "gc_type_of env = k" "k \<noteq> 0"
  shows "(gc_type_of e = 0 \<and> (\<exists>fl t. s = GCPrologue k fl t \<and> gc_mark_of env = t)) \<or>
         (gc_type_of e = k \<and> env = e \<and> \<not> is_epilogue_of k s)"
proof (cases s)
  case (GCPrologue type fl t)
  show ?thesis
  proof (cases "gc_type_of e = 0")
    case True
    with assms GCPrologue start_accepted [OF True, of type fl t] show ?thesis by auto
  next
    case False
    with assms GCPrologue start_ignored [OF False, of type fl t] show ?thesis by auto
  qed
next
  case (GCEpilogue type fl t)
  show ?thesis
  proof (cases "type = gc_type_of e")
    case True
    with assms GCEpilogue end_match [OF True, of c fl t env] show ?thesis by auto
  next
    case False
    with assms GCEpilogue end_mismatch [OF False, of c fl t] show ?thesis by auto
  qed
qed

lemma gc_cycle_open:
  assumes "gc_type_of env0 = 0"
  shows "gc_run c env0 sigs = Returned env \<Longrightarrow> gc_type_of env = k \<Longrightarrow> k \<noteq> 0 \<Longrightarrow>
    \<exists>pre fl t post. sigs = pre @ GCPrologue k fl t # post \<and>
       (\<exists>e. gc_run c env0 pre = Returned e \<and> gc_type_of e = 0) \<and>
       (\<forall>p1 p2. post = p1 @ p2 \<longrightarrow>
          (\<exists>e. gc_run c env0 (pre @ GCPrologue k fl t # p1) = Returned e \<and>
               gc_type_of e = k \<and> gc_mark_of e = t)) \<and>
       gc_mark_of env = t \<and>
       (\<forall>s \<in> set post. \<not> is_epilogue_of k s)"
proof (induction sigs arbitrary: env rule: rev_induct)
  case Nil
  with assms show ?case by simp
next
  case (snoc s ss)
  from snoc.prems(1) obtain e where e: "gc_run c env0 ss = Returned e" "gc_step c e s = Returned env"
    by (auto simp: gc_run_snoc split: outcome.splits)
  from gc_step_cases [OF e(2) snoc.prems(2,3)]
  show ?case
  proof
    assume a: "gc_type_of e = 0 \<and> (\<exists>fl t. s = GCPrologue k fl t \<and> gc_mark_of env = t)"
    then obtain fl t where s: "s = GCPrologue k fl t" "gc_mark_of env = t" by blast
    have "ss @ [s] = ss @ GCPrologue k fl t # []" using s by simp
    moreover have "\<exists>e. gc_run c env0 ss = Returned e \<and> gc_type_of e = 0" using e a by blast
    moreover have "gc_run c env0 (ss @ [GCPrologue k fl t]) = Returned env"
      using snoc.prems(1) s by simp
    ultimately show ?thesis using s snoc.prems(2) 
      by (intro exI [where x = ss] exI [where x = fl] exI [where x = t]
            exI [where x = "[]"]) simp
  next
    assume a: "gc_type_of e = k \<and> env = e \<and> \<not> is_epilogue_of k s"
    from snoc.IH [OF e(1) _ snoc.prems(3)] a
    obtain pre fl t post where p: "ss = pre @ GCPrologue k fl t # post"
       "\<exists>e. gc_run c env0 pre = Returned e \<and> gc_type_of e = 0"
       "\<forall>p1 p2. post = p1 @ p2 \<longrightarrow>
          (\<exists>e. gc_run c env0 (pre @ GCPrologue k fl t # p1) = Returned e \<and>
               gc_type_of e = k \<and> gc_mark_of e = t)"
       "gc_mark_of e = t"
       "\<forall>s \<in> set post. \<not> is_epilogue_of k s"
      by blast
    have whole: "gc_run c env0 (pre @ GCPrologue k fl t # post @ [s]) = Returned env"
      using snoc.prems(1) p(1) by simp
    have "\<forall>p1 p2. post @ [s] = p1 @ p2 \<longrightarrow>
          (\<exists>e. gc_run c env0 (pre @ GCPrologue k fl t # p1) = Returned e \<and>
               gc_type_of e = k \<and> gc_mark_of e = t)"
    proof (intro allI impI)
      fix p1 p2 assume eq: "post @ [s] = p1 @ p2"
      show "\<exists>e. gc_run c env0 (pre @ GCPrologue k fl t # p1) = Returned e \<and>
               gc_type_of e = k \<and> gc_mark_of e = t"
      proof (cases p2 rule: rev_cases)
        case Nil
        with eq whole a p(4) show ?thesis by auto
      next
        case (snoc q x)
        with eq have "post = p1 @ q" by simp
        with p(3) show ?thesis by blast
      qed
    qed
    with p a show ?thesis
      by (intro exI [where x = pre] exI [where x = fl] exI [where x = t]
            exI [where x = "post @ [s]"]) simp
  qed
qed


lemma gc_step_frame:
  "gc_step c e s = Returned env \<Longrightarrow>
     observers (performance_state env) = observers (performance_state e) \<and>
     time_origin env = time_origin e"
  by (cases s)
     (auto simp: MarkGarbageCollectionStart_def MarkGarbageCollectionEnd_def SetImmediate_def
        Let_def split: option.splits if_splits)

lemma gc_run_frame:
  "gc_run c env0 sigs = Returned env \<Longrightarrow>
     observers (performance_state env) = observers (performance_state env0) \<and>
     time_origin env = time_origin env0"
proof (induction sigs arbitrary: env0)
  case Nil
  then show ?case by simp
next
  case (Cons s ss)
  then obtain e where e: "gc_step c env0 s = Returned e" "gc_run c e ss = Returned env"
    by (auto split: outcome.splits)
  from Cons.IH [OF e(2)] gc_step_frame [OF e(1)] show ?case by simp
qed

lemma end_returns:
  "NODE_PERFORMANCE_ENTRY_TYPE_GC c < length (observers (performance_state env)) \<Longrightarrow>
     \<exists>env'. MarkGarbageCollectionEnd c env type flags now = Returned env'"
  by (simp add: MarkGarbageCollectionEnd_def aliased_get_def Let_def)

lemma gc_step_returns:
  "NODE_PERFORMANCE_ENTRY_TYPE_GC c < length (observers (performance_state env)) \<Longrightarrow>
     \<exists>env'. gc_step c env s = Returned env'"
  by (cases s) (simp_all add: end_returns)

lemma gc_run_returns:
  "NODE_PERFORMANCE_ENTRY_TYPE_GC c < length (observers (performance_state env0)) \<Longrightarrow>
     \<exists>env. gc_run c env0 sigs = Returned env"
proof (induction sigs arbitrary: env0)
  case Nil
  then show ?case by simp
next
  case (Cons s ss)
  from gc_step_returns [OF Cons.prems] obtain e where e: "gc_step c env0 s = Returned e" by blast
  with gc_step_frame [OF e] Cons.prems
  have "NODE_PERFORMANCE_ENTRY_TYPE_GC c < length (observers (performance_state e))" by simp
  from Cons.IH [OF this] e show ?case by simp
qed

lemma install_idle: "gc_type_of (InstallGarbageCollectionTracking env) = 0"
  by (simp add: InstallGarbageCollectionTracking_def gc_type_of_def)

lemma install_frame:
  "observers (performance_state (InstallGarbageCollectionTracking env)) =
     observers (performance_state env) \<and>
   time_origin (InstallGarbageCollectionTracking env) = time_origin env"
  by (simp add: InstallGarbageCollectionTracking_def)

text \<open>
  Claim C1.  After \<open>InstallGarbageCollectionTracking\<close>, every sequence of prologue and
  epilogue signals runs to a state with these properties.  If \<open>current_gc_type\<close> is
  not zero, the sequence contains a prologue of that kind which arrived when
  \<open>current_gc_type\<close> was zero, and no epilogue of that kind has arrived since.  A
  prologue that arrives while \<open>current_gc_type\<close> is not zero leaves the state as it is;
  so does an epilogue of a kind other than \<open>current_gc_type\<close>; an epilogue of the kind
  \<open>current_gc_type\<close> sets it to zero.
\<close>

theorem gc_cycle_state_machine:
  assumes gc: "NODE_PERFORMANCE_ENTRY_TYPE_GC c < length (observers (performance_state env0))"
  shows "\<exists>env. gc_run c (InstallGarbageCollectionTracking env0) sigs = Returned env \<and>
    (gc_type_of env \<noteq> 0 \<longrightarrow>
       (\<exists>pre fl t post. sigs = pre @ GCPrologue (gc_type_of env) fl t # post \<and>
          (\<exists>e. gc_run c (InstallGarbageCollectionTracking env0) pre = Returned e \<and>
               gc_type_of e = 0) \<and>
          (\<forall>s \<in> set post. \<not> is_epilogue_of (gc_type_of env) s))) \<and>
    (\<forall>type fl now. gc_type_of env \<noteq> 0 \<longrightarrow>
       MarkGarbageCollectionStart env type fl now = env) \<and>
    (\<forall>type fl now. type \<noteq> gc_type_of env \<longrightarrow>
       MarkGarbageCollectionEnd c env type fl now = Returned env) \<and>
    (\<forall>type fl now. type = gc_type_of env \<longrightarrow>
       (\<exists>env'. MarkGarbageCollectionEnd c env type fl now = Returned env' \<and>
              gc_type_of env' = 0))"
proof -
  let ?init = "InstallGarbageCollectionTracking env0"
  from gc have gc0: "NODE_PERFORMANCE_ENTRY_TYPE_GC c < length (observers (performance_state ?init))"
    by (simp add: install_frame)
  from gc_run_returns [OF gc0] obtain env where run: "gc_run c ?init sigs = Returned env"
    by blast
  have gc1: "NODE_PERFORMANCE_ENTRY_TYPE_GC c < length (observers (performance_state env))"
    using gc_run_frame [OF run] gc0 by simp
  have between: "gc_type_of env \<noteq> 0 \<longrightarrow>
       (\<exists>pre fl t post. sigs = pre @ GCPrologue (gc_type_of env) fl t # post \<and>
          (\<exists>e. gc_run c ?init pre = Returned e \<and> gc_type_of e = 0) \<and>
          (\<forall>s \<in> set post. \<not> is_epilogue_of (gc_type_of env) s))"
  proof
    assume nz: "gc_type_of env \<noteq> 0"
    from gc_cycle_open [OF install_idle run refl nz]
    show "\<exists>pre fl t post. sigs = pre @ GCPrologue (gc_type_of env) fl t # post \<and>
          (\<exists>e. gc_run c ?init pre = Returned e \<and> gc_type_of e = 0) \<and>
          (\<forall>s \<in> set post. \<not> is_epilogue_of (gc_type_of env) s)"
      by blast
  qed
  have matched: "\<forall>type fl now. type = gc_type_of env \<longrightarrow>
       (\<exists>env'. MarkGarbageCollectionEnd c env type fl now = Returned env' \<and>
              gc_type_of env' = 0)"
  proof (intro allI impI)
    fix type fl :: nat and now :: uint64
    assume m: "type = gc_type_of env"
    from end_returns [OF gc1, of type fl now] obtain env'
      where r: "MarkGarbageCollectionEnd c env type fl now = Returned env'" by blast
    from end_match [OF m r] r
    show "\<exists>env'. MarkGarbageCollectionEnd c env type fl now = Returned env' \<and>
              gc_type_of env' = 0" by blast
  qed
  from run between matched show ?thesis
    by (intro exI [where x = env]) (simp add: start_ignored end_mismatch)
qed

theorem gc_cycle_state_machine_witness:
  "NODE_PERFORMANCE_ENTRY_TYPE_GC ex_enums < length (observers (performance_state ex_env)) \<and>
   (\<exists>env. gc_run ex_enums (InstallGarbageCollectionTracking ex_env) ex_gc_signals = Returned env \<and>
      gc_type_of env = 1 \<and>
      (\<exists>pre fl t post. ex_gc_signals = pre @ GCPrologue 1 fl t # post \<and>
          (\<forall>s \<in> set post. \<not> is_epilogue_of 1 s)) \<and>
      MarkGarbageCollectionStart env 2 0 30 = env \<and>
      MarkGarbageCollectionEnd ex_enums env 2 0 30 = Returned env \<and>
      (\<exists>env'. MarkGarbageCollectionEnd ex_enums env 1 0 30 = Returned env' \<and>
             gc_type_of env' = 0))"
proof -
  have h: "NODE_PERFORMANCE_ENTRY_TYPE_GC ex_enums < length (observers (performance_state ex_env))"
    by (simp add: ex_enums_def ex_env_def ex_state_def)
  from gc_cycle_state_machine [OF h, of ex_gc_signals] obtain env where
    env: "gc_run ex_enums (InstallGarbageCollectionTracking ex_env) ex_gc_signals = Returned env"
    and btw: "gc_type_of env \<noteq> 0 \<longrightarrow>
       (\<exists>pre fl t post. ex_gc_signals = pre @ GCPrologue (gc_type_of env) fl t # post \<and>
          (\<exists>e. gc_run ex_enums (InstallGarbageCollectionTracking ex_env) pre = Returned e \<and>
               gc_type_of e = 0) \<and>
          (\<forall>s \<in> set post. \<not> is_epilogue_of (gc_type_of env) s))"
    and st: "\<forall>type fl now. gc_type_of env \<noteq> 0 \<longrightarrow> MarkGarbageCollectionStart env type fl now = env"
    and mm: "\<forall>type fl now. type \<noteq> gc_type_of env \<longrightarrow>
         MarkGarbageCollectionEnd ex_enums env type fl now = Returned env"
    and ma: "\<forall>type fl now. type = gc_type_of env \<longrightarrow>
         (\<exists>env'. MarkGarbageCollectionEnd ex_enums env type fl now = Returned env' \<and>
              gc_type_of env' = 0)"
    by (elim exE conjE)
  have k: "gc_type_of env = 1"
    using env
    by (auto simp: ex_gc_signals_def InstallGarbageCollectionTracking_def
        MarkGarbageCollectionStart_def gc_type_of_def)
  from st k have a: "MarkGarbageCollectionStart env 2 0 30 = env" by simp
  from mm k have b: "MarkGarbageCollectionEnd ex_enums env 2 0 30 = Returned env" by simp
  from ma k have d: "\<exists>env'. MarkGarbageCollectionEnd ex_enums env 1 0 30 = Returned env' \<and>
             gc_type_of env' = 0" by simp
  from btw k obtain pre fl t post where p: "ex_gc_signals = pre @ GCPrologue 1 fl t # post"
          "\<forall>s \<in> set post. \<not> is_epilogue_of 1 s" by (simp only: One_nat_def) blast
  then have e: "\<exists>pre fl t post. ex_gc_signals = pre @ GCPrologue 1 fl t # post \<and>
          (\<forall>s \<in> set post. \<not> is_epilogue_of 1 s)" by (intro exI conjI)
  from env k a b d e have "gc_run ex_enums (InstallGarbageCollectionTracking ex_env) ex_gc_signals = Returned env \<and>
      gc_type_of env = 1 \<and>
      (\<exists>pre fl t post. ex_gc_signals = pre @ GCPrologue 1 fl t # post \<and>
          (\<forall>s \<in> set post. \<not> is_epilogue_of 1 s)) \<and>
      MarkGarbageCollectionStart env 2 0 30 = env \<and>
      MarkGarbageCollectionEnd ex_enums env 2 0 30 = Returned env \<and>
      (\<exists>env'. MarkGarbageCollectionEnd ex_enums env 1 0 30 = Returned env' \<and>
             gc_type_of env' = 0)" by (intro conjI)
  then have "\<exists>env. gc_run ex_enums (InstallGarbageCollectionTracking ex_env) ex_gc_signals = Returned env \<and>
      gc_type_of env = 1 \<and>
      (\<exists>pre fl t post. ex_gc_signals = pre @ GCPrologue 1 fl t # post \<and>
          (\<forall>s \<in> set post. \<not> is_epilogue_of 1 s)) \<and>
      MarkGarbageCollectionStart env 2 0 30 = env \<and>
      MarkGarbageCollectionEnd ex_enums env 2 0 30 = Returned env \<and>
      (\<exists>env'. MarkGarbageCollectionEnd ex_enums env 1 0 30 = Returned env' \<and>
             gc_type_of env' = 0)" by (rule exI)
  with h show ?thesis by (rule conjI)
qed

lemma millis_mono:
  fixes a b :: uint64
  assumes "a \<le> b"
  shows "real (unat a) / 1000000 \<le> real (unat b) / 1000000"
proof -
  from assms have "unat a \<le> unat b" by (simp add: word_le_nat_alt)
  then have "real (unat a) \<le> real (unat b)" by (simp only: of_nat_le_iff)
  then show ?thesis by (rule divide_right_mono) simp
qed

lemma end_matched_result:
  assumes "type = current_gc_type (performance_state env)"
    and "aliased_get (observers (performance_state env)) (NODE_PERFORMANCE_ENTRY_TYPE_GC c) = Some n"
  shows "MarkGarbageCollectionEnd c env type flags now =
    (if n = 0
     then Returned (env\<lparr>performance_state := (performance_state env)\<lparr>current_gc_type := 0\<rparr>\<rparr>)
     else Returned (env\<lparr>performance_state := (performance_state env)\<lparr>current_gc_type := 0\<rparr>,
        immediates := immediates env @
          [(\<lparr>entry_name = ''gc'',
             entry_start_time =
               real (unat (performance_last_gc_start_mark (performance_state env) - time_origin env))
                 / 1000000,
             entry_duration =
               real (unat now) / 1000000
                 - real (unat (performance_last_gc_start_mark (performance_state env))) / 1000000,
             details_kind = type, details_flags = flags\<rparr>, kUnrefed)]\<rparr>))"
  using assms
  by (simp add: MarkGarbageCollectionEnd_def SetImmediate_def NANOS_PER_MILLIS_def Let_def)

lemma end_entry_only_when_matched:
  assumes "MarkGarbageCollectionEnd c env type flags now = Returned env'"
    and "immediates env' \<noteq> immediates env"
  shows "type = current_gc_type (performance_state env) \<and>
    (\<exists>n. aliased_get (observers (performance_state env)) (NODE_PERFORMANCE_ENTRY_TYPE_GC c) = Some n
       \<and> n \<noteq> 0)"
  using assms
  by (auto simp: MarkGarbageCollectionEnd_def Let_def split: if_splits option.splits)

text \<open>
  Claim C2.  An epilogue of the kind \<open>current_gc_type\<close> with the counter of the GC
  entry type at zero returns the environment with \<open>current_gc_type\<close> cleared and
  nothing else changed: no entry is built, none is queued, no callback is called.  With
  a counter that is not zero it queues exactly one task, with \<open>kUnrefed\<close>, for a
  \<open>gc\<close> entry that carries the kind and the flags; the callback is not called before
  the function returns.  The duration of the entry is not negative when the clock has
  not gone back since the start mark.
\<close>

theorem gc_end_entry_delivery:
  assumes matched: "type = current_gc_type (performance_state env)"
    and counter: "aliased_get (observers (performance_state env))
                    (NODE_PERFORMANCE_ENTRY_TYPE_GC c) = Some n"
  shows "(n = 0 \<longrightarrow>
            MarkGarbageCollectionEnd c env type flags now =
              Returned (env\<lparr>performance_state :=
                              (performance_state env)\<lparr>current_gc_type := 0\<rparr>\<rparr>)) \<and>
         (n \<noteq> 0 \<longrightarrow>
            (\<exists>env' entry.
               MarkGarbageCollectionEnd c env type flags now = Returned env' \<and>
               immediates env' = immediates env @ [(entry, kUnrefed)] \<and>
               callback_calls env' = callback_calls env \<and>
               entry_name entry = ''gc'' \<and>
               details_kind entry = type \<and> details_flags entry = flags \<and>
               (performance_last_gc_start_mark (performance_state env) \<le> now \<longrightarrow>
                  0 \<le> entry_duration entry)))"
proof (intro conjI impI)
  assume "n = 0"
  with end_matched_result [OF matched counter, of flags now]
  show "MarkGarbageCollectionEnd c env type flags now =
          Returned (env\<lparr>performance_state := (performance_state env)\<lparr>current_gc_type := 0\<rparr>\<rparr>)"
    by simp
next
  assume nz: "n \<noteq> 0"
  let ?mark = "performance_last_gc_start_mark (performance_state env)"
  let ?entry = "\<lparr>entry_name = ''gc'',
             entry_start_time = real (unat (?mark - time_origin env)) / 1000000,
             entry_duration = real (unat now) / 1000000 - real (unat ?mark) / 1000000,
             details_kind = type, details_flags = flags\<rparr>"
  let ?env' = "env\<lparr>performance_state := (performance_state env)\<lparr>current_gc_type := 0\<rparr>,
        immediates := immediates env @ [(?entry, kUnrefed)]\<rparr>"
  have r: "MarkGarbageCollectionEnd c env type flags now = Returned ?env'"
    using end_matched_result [OF matched counter, of flags now] nz by simp
  have d: "?mark \<le> now \<longrightarrow> 0 \<le> entry_duration ?entry"
    using millis_mono [of ?mark now] by (simp del: of_nat_unat)
  show "\<exists>env' entry.
               MarkGarbageCollectionEnd c env type flags now = Returned env' \<and>
               immediates env' = immediates env @ [(entry, kUnrefed)] \<and>
               callback_calls env' = callback_calls env \<and>
               entry_name entry = ''gc'' \<and>
               details_kind entry = type \<and> details_flags entry = flags \<and>
               (performance_last_gc_start_mark (performance_state env) \<le> now \<longrightarrow>
                  0 \<le> entry_duration entry)"
    using r d by (intro exI [where x = ?env'] exI [where x = ?entry]) simp
qed

lemma ex_gc_env_simps:
  "current_gc_type (performance_state ex_gc_env) = 1"
  "performance_last_gc_start_mark (performance_state ex_gc_env) = 5000000"
  "time_origin ex_gc_env = 2000000"
  "aliased_get (observers (performance_state ex_gc_env))
     (NODE_PERFORMANCE_ENTRY_TYPE_GC ex_enums) = Some 1"
  "immediates ex_gc_env = []"
  "callback_calls ex_gc_env = []"
  by (simp_all add: ex_gc_env_def ex_env_def ex_state_def ex_enums_def aliased_get_def)

lemma ex_gc_env_unobserved_simps:
  "current_gc_type (performance_state ex_gc_env_unobserved) = 1"
  "aliased_get (observers (performance_state ex_gc_env_unobserved))
     (NODE_PERFORMANCE_ENTRY_TYPE_GC ex_enums) = Some 0"
  by (simp_all add: ex_gc_env_unobserved_def ex_gc_env_def ex_env_def ex_state_def ex_enums_def
      aliased_get_def)

theorem gc_end_entry_delivery_witness:
  "(1 = current_gc_type (performance_state ex_gc_env) \<and>
    aliased_get (observers (performance_state ex_gc_env))
      (NODE_PERFORMANCE_ENTRY_TYPE_GC ex_enums) = Some 1 \<and>
    performance_last_gc_start_mark (performance_state ex_gc_env) \<le> 55000000 \<and>
    (\<exists>env' entry.
       MarkGarbageCollectionEnd ex_enums ex_gc_env 1 0 55000000 = Returned env' \<and>
       immediates env' = [(entry, kUnrefed)] \<and> callback_calls env' = [] \<and>
       0 \<le> entry_duration entry)) \<and>
   (1 = current_gc_type (performance_state ex_gc_env_unobserved) \<and>
    aliased_get (observers (performance_state ex_gc_env_unobserved))
      (NODE_PERFORMANCE_ENTRY_TYPE_GC ex_enums) = Some 0 \<and>
    MarkGarbageCollectionEnd ex_enums ex_gc_env_unobserved 1 0 55000000 =
      Returned (ex_gc_env_unobserved\<lparr>performance_state :=
         (performance_state ex_gc_env_unobserved)\<lparr>current_gc_type := 0\<rparr>\<rparr>))"
proof -
  have m1: "1 = current_gc_type (performance_state ex_gc_env)"
    by (simp add: ex_gc_env_simps)
  have c1: "aliased_get (observers (performance_state ex_gc_env))
      (NODE_PERFORMANCE_ENTRY_TYPE_GC ex_enums) = Some 1"
    by (simp add: ex_gc_env_simps)
  have le: "performance_last_gc_start_mark (performance_state ex_gc_env) \<le> 55000000"
    by (simp add: ex_gc_env_simps)
  have m2: "1 = current_gc_type (performance_state ex_gc_env_unobserved)"
    by (simp add: ex_gc_env_unobserved_simps)
  have c2: "aliased_get (observers (performance_state ex_gc_env_unobserved))
      (NODE_PERFORMANCE_ENTRY_TYPE_GC ex_enums) = Some 0"
    by (simp add: ex_gc_env_unobserved_simps)
  have a: "\<exists>env' entry.
       MarkGarbageCollectionEnd ex_enums ex_gc_env 1 0 55000000 = Returned env' \<and>
       immediates env' = [(entry, kUnrefed)] \<and> callback_calls env' = [] \<and>
       0 \<le> entry_duration entry"
    using gc_end_entry_delivery [OF m1 c1, of 0 55000000] le
    by (simp add: ex_gc_env_simps) blast
  have b: "MarkGarbageCollectionEnd ex_enums ex_gc_env_unobserved 1 0 55000000 =
      Returned (ex_gc_env_unobserved\<lparr>performance_state :=
         (performance_state ex_gc_env_unobserved)\<lparr>current_gc_type := 0\<rparr>\<rparr>)"
    using gc_end_entry_delivery [OF m2 c2, of 0 55000000] by simp
  from m1 c1 le a m2 c2 b show ?thesis by (intro conjI)
qed

text \<open>
  Claim C3.  The entry that a matched epilogue builds has the start time
  \<open>(last_gc_start_mark - time_origin) / 1e6\<close>, with the subtraction of \<open>uint64_t\<close>,
  and the duration \<open>now / 1e6 - last_gc_start_mark / 1e6\<close>.  The mark, the origin and
  \<open>now\<close> count nanoseconds, so both are milliseconds: the duration times \<open>1e6\<close> is the
  nanoseconds between the mark and \<open>now\<close>, and the start time times \<open>1e6\<close> is the
  nanoseconds between the origin and the mark when the origin is not after the mark.
\<close>

theorem gc_entry_times:
  assumes matched: "type = current_gc_type (performance_state env)"
    and counter: "aliased_get (observers (performance_state env))
                    (NODE_PERFORMANCE_ENTRY_TYPE_GC c) = Some n"
    and observed: "n \<noteq> 0"
  shows "\<exists>env' entry.
     MarkGarbageCollectionEnd c env type flags now = Returned env' \<and>
     immediates env' = immediates env @ [(entry, kUnrefed)] \<and>
     entry_start_time entry =
       real (unat (performance_last_gc_start_mark (performance_state env) - time_origin env))
         / 1000000 \<and>
     entry_duration entry =
       real (unat now) / 1000000
         - real (unat (performance_last_gc_start_mark (performance_state env))) / 1000000 \<and>
     (time_origin env \<le> performance_last_gc_start_mark (performance_state env) \<longrightarrow>
        entry_start_time entry * 1000000 =
          real (unat (performance_last_gc_start_mark (performance_state env)))
            - real (unat (time_origin env))) \<and>
     entry_duration entry * 1000000 =
       real (unat now) - real (unat (performance_last_gc_start_mark (performance_state env)))"
proof -
  let ?mark = "performance_last_gc_start_mark (performance_state env)"
  let ?entry = "\<lparr>entry_name = ''gc'',
             entry_start_time = real (unat (?mark - time_origin env)) / 1000000,
             entry_duration = real (unat now) / 1000000 - real (unat ?mark) / 1000000,
             details_kind = type, details_flags = flags\<rparr>"
  let ?env' = "env\<lparr>performance_state := (performance_state env)\<lparr>current_gc_type := 0\<rparr>,
        immediates := immediates env @ [(?entry, kUnrefed)]\<rparr>"
  have r: "MarkGarbageCollectionEnd c env type flags now = Returned ?env'"
    using end_matched_result [OF matched counter, of flags now] observed by simp
  have s: "time_origin env \<le> ?mark \<longrightarrow>
        entry_start_time ?entry * 1000000 = real (unat ?mark) - real (unat (time_origin env))"
  proof
    assume le: "time_origin env \<le> ?mark"
    then have "unat (?mark - time_origin env) = unat ?mark - unat (time_origin env)"
      by (rule unat_sub)
    moreover from le have "unat (time_origin env) \<le> unat ?mark"
      by (simp add: word_le_nat_alt)
    ultimately have "real (unat (?mark - time_origin env)) =
        real (unat ?mark) - real (unat (time_origin env))"
      by (simp only: of_nat_diff)
    then show "entry_start_time ?entry * 1000000 =
        real (unat ?mark) - real (unat (time_origin env))"
      by (simp del: of_nat_unat)
  qed
  have d: "entry_duration ?entry * 1000000 = real (unat now) - real (unat ?mark)"
    by (simp add: field_simps)
  show ?thesis
    using r s d by (intro exI [where x = ?env'] exI [where x = ?entry]) simp
qed

theorem gc_entry_times_witness:
  "1 = current_gc_type (performance_state ex_gc_env) \<and>
   aliased_get (observers (performance_state ex_gc_env))
      (NODE_PERFORMANCE_ENTRY_TYPE_GC ex_enums) = Some 1 \<and>
   (1 :: uint32) \<noteq> 0 \<and>
   time_origin ex_gc_env \<le> performance_last_gc_start_mark (performance_state ex_gc_env) \<and>
   (\<exists>env' entry.
      MarkGarbageCollectionEnd ex_enums ex_gc_env 1 0 55000000 = Returned env' \<and>
      immediates env' = [(entry, kUnrefed)] \<and>
      entry_start_time entry = 3 \<and> entry_duration entry = 50)"
proof -
  have m1: "1 = current_gc_type (performance_state ex_gc_env)"
    by (simp add: ex_gc_env_simps)
  have c1: "aliased_get (observers (performance_state ex_gc_env))
      (NODE_PERFORMANCE_ENTRY_TYPE_GC ex_enums) = Some 1"
    by (simp add: ex_gc_env_simps)
  have nz: "(1 :: uint32) \<noteq> 0" by simp
  have le: "time_origin ex_gc_env \<le> performance_last_gc_start_mark (performance_state ex_gc_env)"
    by (simp add: ex_gc_env_simps)
  have a: "\<exists>env' entry.
      MarkGarbageCollectionEnd ex_enums ex_gc_env 1 0 55000000 = Returned env' \<and>
      immediates env' = [(entry, kUnrefed)] \<and>
      entry_start_time entry = 3 \<and> entry_duration entry = 50"
    using gc_entry_times [OF m1 c1 nz, of 0 55000000]
    by (simp add: ex_gc_env_simps) blast
  from m1 c1 nz le a show ?thesis by (intro conjI)
qed

text \<open>
  Claim C10.  Whenever an epilogue of a kind \<open>k\<close> other than zero builds an entry after
  a sequence of signals, the sequence contains a prologue of kind \<open>k\<close> that arrived when
  \<open>current_gc_type\<close> was zero; from that prologue to the epilogue \<open>current_gc_type\<close>
  stayed \<open>k\<close> and the start mark stayed the clock value of that prologue; the entry has
  the kind \<open>k\<close>, and its start time and its duration are computed from that clock
  value.
\<close>

theorem gc_entry_uses_mark_of_its_cycle:
  assumes run: "gc_run c (InstallGarbageCollectionTracking env0) sigs = Returned env"
    and kind: "k \<noteq> 0"
    and ends: "MarkGarbageCollectionEnd c env k flags now = Returned env'"
    and built: "immediates env' = immediates env @ [(entry, kUnrefed)]"
  shows "\<exists>pre fl0 t0 post.
     sigs = pre @ GCPrologue k fl0 t0 # post \<and>
     (\<exists>e. gc_run c (InstallGarbageCollectionTracking env0) pre = Returned e \<and>
          gc_type_of e = 0) \<and>
     (\<forall>p1 p2. post = p1 @ p2 \<longrightarrow>
        (\<exists>e. gc_run c (InstallGarbageCollectionTracking env0) (pre @ GCPrologue k fl0 t0 # p1)
               = Returned e \<and>
             gc_type_of e = k \<and> gc_mark_of e = t0)) \<and>
     details_kind entry = k \<and>
     entry_start_time entry = real (unat (t0 - time_origin env0)) / 1000000 \<and>
     entry_duration entry = real (unat now) / 1000000 - real (unat t0) / 1000000"
proof -
  let ?init = "InstallGarbageCollectionTracking env0"
  from built have "immediates env' \<noteq> immediates env" by simp
  from end_entry_only_when_matched [OF ends this] obtain n
    where matched: "k = current_gc_type (performance_state env)"
      and counter: "aliased_get (observers (performance_state env))
                      (NODE_PERFORMANCE_ENTRY_TYPE_GC c) = Some n"
      and observed: "n \<noteq> 0"
    by blast
  from matched have cur: "gc_type_of env = k" by (simp add: gc_type_of_def)
  from gc_cycle_open [OF install_idle run cur kind] obtain pre fl0 t0 post
    where decomposition: "sigs = pre @ GCPrologue k fl0 t0 # post"
      and accepted: "\<exists>e. gc_run c ?init pre = Returned e \<and> gc_type_of e = 0"
      and pending: "\<forall>p1 p2. post = p1 @ p2 \<longrightarrow>
          (\<exists>e. gc_run c ?init (pre @ GCPrologue k fl0 t0 # p1) = Returned e \<and>
               gc_type_of e = k \<and> gc_mark_of e = t0)"
      and mark: "gc_mark_of env = t0"
    by blast
  from mark have mark': "performance_last_gc_start_mark (performance_state env) = t0"
    by (simp add: gc_mark_of_def)
  have origin: "time_origin env = time_origin env0"
    using gc_run_frame [OF run] by (simp add: install_frame)
  from end_matched_result [OF matched counter, of flags now] observed ends built
  have entry: "entry = \<lparr>entry_name = ''gc'',
             entry_start_time = real (unat (t0 - time_origin env0)) / 1000000,
             entry_duration = real (unat now) / 1000000 - real (unat t0) / 1000000,
             details_kind = k, details_flags = flags\<rparr>"
    by (auto simp: mark' origin)
  have "details_kind entry = k \<and>
     entry_start_time entry = real (unat (t0 - time_origin env0)) / 1000000 \<and>
     entry_duration entry = real (unat now) / 1000000 - real (unat t0) / 1000000"
    by (simp add: entry)
  with decomposition accepted pending show ?thesis by blast
qed

lemma ex_cycle_run:
  "gc_run ex_enums (InstallGarbageCollectionTracking ex_env) ex_cycle = Returned ex_cycle_env"
  by (simp add: ex_cycle_def ex_cycle_env_def InstallGarbageCollectionTracking_def
      MarkGarbageCollectionStart_def MarkGarbageCollectionEnd_def ex_env_def ex_state_def)

lemma ex_cycle_end:
  "MarkGarbageCollectionEnd ex_enums ex_cycle_env 1 0 55000000 =
     Returned (ex_cycle_env\<lparr>performance_state := ex_state\<lparr>performance_last_gc_start_mark := 5000000\<rparr>,
                 immediates := [(ex_cycle_entry, kUnrefed)]\<rparr>)"
  by (simp add: ex_cycle_env_def ex_cycle_entry_def MarkGarbageCollectionEnd_def SetImmediate_def
      NANOS_PER_MILLIS_def aliased_get_def ex_env_def ex_state_def ex_enums_def
      PerformanceState_new_def)

theorem gc_entry_uses_mark_of_its_cycle_witness:
  "gc_run ex_enums (InstallGarbageCollectionTracking ex_env) ex_cycle = Returned ex_cycle_env \<and>
   (1 :: nat) \<noteq> 0 \<and>
   (\<exists>env'. MarkGarbageCollectionEnd ex_enums ex_cycle_env 1 0 55000000 = Returned env' \<and>
      immediates env' = immediates ex_cycle_env @ [(ex_cycle_entry, kUnrefed)]) \<and>
   (\<exists>pre fl0 t0 post.
      ex_cycle = pre @ GCPrologue 1 fl0 t0 # post \<and>
      details_kind ex_cycle_entry = 1 \<and>
      entry_start_time ex_cycle_entry = real (unat (t0 - time_origin ex_env)) / 1000000 \<and>
      entry_duration ex_cycle_entry = real (unat (55000000 :: uint64)) / 1000000
         - real (unat t0) / 1000000)"
proof -
  let ?env' = "ex_cycle_env\<lparr>performance_state := ex_state\<lparr>performance_last_gc_start_mark := 5000000\<rparr>,
                 immediates := [(ex_cycle_entry, kUnrefed)]\<rparr>"
  have nz: "(1 :: nat) \<noteq> 0" by simp
  have built: "immediates ?env' = immediates ex_cycle_env @ [(ex_cycle_entry, kUnrefed)]"
    by (simp add: ex_cycle_env_def ex_env_def)
  from gc_entry_uses_mark_of_its_cycle [OF ex_cycle_run nz ex_cycle_end built]
  have concl: "\<exists>pre fl0 t0 post.
      ex_cycle = pre @ GCPrologue 1 fl0 t0 # post \<and>
      details_kind ex_cycle_entry = 1 \<and>
      entry_start_time ex_cycle_entry = real (unat (t0 - time_origin ex_env)) / 1000000 \<and>
      entry_duration ex_cycle_entry = real (unat (55000000 :: uint64)) / 1000000
         - real (unat t0) / 1000000"
    by blast
  from ex_cycle_end built
  have "\<exists>env'. MarkGarbageCollectionEnd ex_enums ex_cycle_env 1 0 55000000 = Returned env' \<and>
      immediates env' = immediates ex_cycle_env @ [(ex_cycle_entry, kUnrefed)]"
    by blast
  with ex_cycle_run nz concl show ?thesis by (intro conjI)
qed

section \<open>Notification, milestones, histogram and idle time\<close>

text \<open>
  \<open>SetupPerformanceObservers\<close> with a function registers it in place of the callback
  registered before; with anything else, or outside the principal realm, a \<open>CHECK\<close>
  fails.
\<close>

lemma setup_registers:
  "SetupPerformanceObservers env kPrincipal (JSFunction f) =
     Returned (env\<lparr>performance_entry_callback := Some f\<rparr>)"
  by (simp add: SetupPerformanceObservers_def)

lemma setup_checks:
  "SetupPerformanceObservers env kPrincipal (JSOther v) = Aborted"
  "SetupPerformanceObservers env kShadowRealm arg0 = Aborted"
  by (simp_all add: SetupPerformanceObservers_def)

lemma entry_type_index_le: "entry_type_index vs type \<le> length vs"
  by (induction vs) auto

lemma ToPerformanceEntryTypeEnum_range:
  "ToPerformanceEntryTypeEnum c type \<noteq> NODE_PERFORMANCE_ENTRY_TYPE_INVALID c \<Longrightarrow>
     ToPerformanceEntryTypeEnum c type < NODE_PERFORMANCE_ENTRY_TYPE_INVALID c"
  using entry_type_index_le [of "NODE_PERFORMANCE_ENTRY_TYPES c" type]
  by (simp add: ToPerformanceEntryTypeEnum_def NODE_PERFORMANCE_ENTRY_TYPE_INVALID_def)

text \<open>
  Without a registered callback \<open>Notify\<close> is not always a no-op: with a counter that is
  not zero it calls through the empty handle.
\<close>

theorem notify_unregistered_counterexample:
  "performance_entry_callback ex_env = None \<and>
   Notify ex_enums ex_env ''gc'' 7 = Faulted \<and>
   Notify ex_enums ex_env ''gc'' 7 \<noteq> Returned ex_env"
  by (simp add: Notify_def ToPerformanceEntryTypeEnum_def NODE_PERFORMANCE_ENTRY_TYPE_INVALID_def
      aliased_get_def ex_env_def ex_state_def ex_enums_def)

text \<open>
  Claim C4, as amended.  With the observers buffer of the size of the enumeration:
  when the name is the name of an entry type and the counter of that type is not zero,
  \<open>Notify\<close> calls the registered callback once, with the entry; in every other case,
  with or without a registered callback, it returns the environment unchanged, so no
  call is made and nothing is kept for later.
\<close>

theorem notify_dispatch:
  assumes len: "length (observers (performance_state env)) = NODE_PERFORMANCE_ENTRY_TYPE_INVALID c"
  shows "(ToPerformanceEntryTypeEnum c type \<noteq> NODE_PERFORMANCE_ENTRY_TYPE_INVALID c \<and>
          observers (performance_state env) ! ToPerformanceEntryTypeEnum c type \<noteq> 0 \<longrightarrow>
            (\<forall>f. performance_entry_callback env = Some f \<longrightarrow>
               Notify c env type entry =
                 Returned (env\<lparr>callback_calls := callback_calls env @ [(f, entry)]\<rparr>))) \<and>
         (\<not> (ToPerformanceEntryTypeEnum c type \<noteq> NODE_PERFORMANCE_ENTRY_TYPE_INVALID c \<and>
             observers (performance_state env) ! ToPerformanceEntryTypeEnum c type \<noteq> 0) \<longrightarrow>
            Notify c env type entry = Returned env)"
proof (cases "ToPerformanceEntryTypeEnum c type = NODE_PERFORMANCE_ENTRY_TYPE_INVALID c")
  case True
  then show ?thesis by (simp add: Notify_def)
next
  case False
  from ToPerformanceEntryTypeEnum_range [OF False] len
  have "aliased_get (observers (performance_state env)) (ToPerformanceEntryTypeEnum c type) =
      Some (observers (performance_state env) ! ToPerformanceEntryTypeEnum c type)"
    by (simp add: aliased_get_def)
  with False show ?thesis by (simp add: Notify_def)
qed

theorem notify_dispatch_witness:
  "SetupPerformanceObservers ex_env kPrincipal (JSFunction 3) = Returned ex_env_registered \<and>
   length (observers (performance_state ex_env_registered)) =
     NODE_PERFORMANCE_ENTRY_TYPE_INVALID ex_enums \<and>
   ToPerformanceEntryTypeEnum ex_enums ''gc'' \<noteq> NODE_PERFORMANCE_ENTRY_TYPE_INVALID ex_enums \<and>
   observers (performance_state ex_env_registered) ! ToPerformanceEntryTypeEnum ex_enums ''gc'' \<noteq> 0 \<and>
   performance_entry_callback ex_env_registered = Some 3 \<and>
   Notify ex_enums ex_env_registered ''gc'' 7 =
     Returned (ex_env_registered\<lparr>callback_calls := [(3, 7)]\<rparr>) \<and>
   observers (performance_state ex_env_registered) ! ToPerformanceEntryTypeEnum ex_enums ''http'' = 0 \<and>
   Notify ex_enums ex_env_registered ''http'' 7 = Returned ex_env_registered \<and>
   ToPerformanceEntryTypeEnum ex_enums ''mark'' = NODE_PERFORMANCE_ENTRY_TYPE_INVALID ex_enums \<and>
   Notify ex_enums ex_env_registered ''mark'' 7 = Returned ex_env_registered"
proof -
  have len: "length (observers (performance_state ex_env_registered)) =
      NODE_PERFORMANCE_ENTRY_TYPE_INVALID ex_enums"
    by (simp add: ex_env_registered_def ex_env_def ex_state_def ex_enums_def
        NODE_PERFORMANCE_ENTRY_TYPE_INVALID_def)
  have cb: "performance_entry_callback ex_env_registered = Some 3"
    by (simp add: ex_env_registered_def)
  have calls: "callback_calls ex_env_registered = []"
    by (simp add: ex_env_registered_def ex_env_def)
  have gc: "ToPerformanceEntryTypeEnum ex_enums ''gc'' \<noteq> NODE_PERFORMANCE_ENTRY_TYPE_INVALID ex_enums"
    "observers (performance_state ex_env_registered) ! ToPerformanceEntryTypeEnum ex_enums ''gc'' \<noteq> 0"
    by (simp_all add: ToPerformanceEntryTypeEnum_def NODE_PERFORMANCE_ENTRY_TYPE_INVALID_def
        ex_env_registered_def ex_env_def ex_state_def ex_enums_def)
  have http: "observers (performance_state ex_env_registered) ! ToPerformanceEntryTypeEnum ex_enums ''http'' = 0"
    by (simp add: ToPerformanceEntryTypeEnum_def
        ex_env_registered_def ex_env_def ex_state_def ex_enums_def)
  have mark: "ToPerformanceEntryTypeEnum ex_enums ''mark'' = NODE_PERFORMANCE_ENTRY_TYPE_INVALID ex_enums"
    by (simp add: ToPerformanceEntryTypeEnum_def NODE_PERFORMANCE_ENTRY_TYPE_INVALID_def ex_enums_def)
  have a: "Notify ex_enums ex_env_registered ''gc'' 7 =
     Returned (ex_env_registered\<lparr>callback_calls := [(3, 7)]\<rparr>)"
    using notify_dispatch [OF len, of "''gc''" 7] gc cb calls by simp
  have b: "Notify ex_enums ex_env_registered ''http'' 7 = Returned ex_env_registered"
    using notify_dispatch [OF len, of "''http''" 7] http by simp
  have d: "Notify ex_enums ex_env_registered ''mark'' 7 = Returned ex_env_registered"
    using notify_dispatch [OF len, of "''mark''" 7] mark by simp
  have reg: "SetupPerformanceObservers ex_env kPrincipal (JSFunction 3) = Returned ex_env_registered"
    by (simp add: setup_registers ex_env_registered_def)
  from reg len gc cb a http b mark d show ?thesis by (intro conjI)
qed

text \<open>
  An identifier beyond \<open>INVALID\<close> passes the test of \<open>MarkMilestone\<close> and is used as an
  index outside the buffer.
\<close>

theorem mark_milestone_out_of_range_counterexample:
  "int (NODE_PERFORMANCE_MILESTONE_INVALID ex_enums) < 4 \<and>
   MarkMilestone ex_enums ex_env kPrincipal 4 100 = Faulted \<and>
   MarkMilestone ex_enums ex_env kPrincipal 4 100 \<noteq> Returned ex_env"
  by (simp add: MarkMilestone_def Mark_def aliased_set_def NODE_PERFORMANCE_MILESTONE_INVALID_def
      ex_env_def ex_state_def ex_enums_def PerformanceState_new_def reset_milestones_def)

text \<open>
  Claim C5, as amended.  In the principal realm \<open>MarkMilestone\<close> with the \<open>INVALID\<close>
  identifier returns and leaves the whole environment, and so every milestone and every
  observer counter, unchanged.
\<close>

theorem mark_milestone_invalid_noop:
  "MarkMilestone c env kPrincipal (int (NODE_PERFORMANCE_MILESTONE_INVALID c)) now = Returned env"
  by (simp add: MarkMilestone_def)

text \<open>
  The interval 0 fails \<open>CHECK_GT(interval, 0)\<close>: the process ends, no error is returned.
\<close>

theorem create_eld_histogram_counterexample:
  "CreateELDHistogram ex_env 0 = Aborted"
  by (simp add: CreateELDHistogram_def)

text \<open>
  Claim C6, as amended.  \<open>CreateELDHistogram\<close> with an interval that is not positive
  fails the \<open>CHECK\<close> before any histogram is created, which ends the process; with
  a positive interval it creates the histogram and returns it.
\<close>

theorem create_eld_histogram_checked:
  "(\<not> 0 < sint interval \<longrightarrow> CreateELDHistogram env interval = Aborted) \<and>
   (0 < sint interval \<longrightarrow>
      CreateELDHistogram env interval =
        Returned (env\<lparr>histograms := histograms env @
                    [\<lparr>histogram_interval = sint interval, histogram_options = [1000]\<rparr>]\<rparr>,
                  \<lparr>histogram_interval = sint interval, histogram_options = [1000]\<rparr>))"
  by (simp add: CreateELDHistogram_def Let_def)

theorem create_eld_histogram_checked_witness:
  "\<not> 0 < sint (0 :: 64 word) \<and> CreateELDHistogram ex_env 0 = Aborted \<and>
   \<not> 0 < sint (- 5 :: 64 word) \<and> CreateELDHistogram ex_env (- 5) = Aborted \<and>
   0 < sint (10 :: 64 word) \<and>
   CreateELDHistogram ex_env 10 =
     Returned (ex_env\<lparr>histograms := [\<lparr>histogram_interval = 10, histogram_options = [1000]\<rparr>]\<rparr>,
               \<lparr>histogram_interval = 10, histogram_options = [1000]\<rparr>)"
proof -
  have z: "\<not> 0 < sint (0 :: 64 word)" by simp
  have n: "\<not> 0 < sint (- 5 :: 64 word)" by simp
  have p: "0 < sint (10 :: 64 word)" "sint (10 :: 64 word) = 10" by simp_all
  have h: "histograms ex_env = []" by (simp add: ex_env_def)
  have a: "CreateELDHistogram ex_env 0 = Aborted"
    using create_eld_histogram_checked [of 0 ex_env] z by simp
  have b: "CreateELDHistogram ex_env (- 5) = Aborted"
    using create_eld_histogram_checked [of "- 5" ex_env] n by simp
  have d: "CreateELDHistogram ex_env 10 =
     Returned (ex_env\<lparr>histograms := [\<lparr>histogram_interval = 10, histogram_options = [1000]\<rparr>]\<rparr>,
               \<lparr>histogram_interval = 10, histogram_options = [1000]\<rparr>)"
    using create_eld_histogram_checked [of 10 ex_env] p h by simp
  from z a n b p(1) d show ?thesis by (intro conjI)
qed

text \<open>
  A loop that has been idle for two seconds: \<open>LoopIdleTime\<close> returns 2000, not 2.
\<close>

theorem loop_idle_time_seconds_counterexample:
  "snd (LoopIdleTime ex_env) = 2000 \<and> spec_idle_time_seconds ex_env = 2 \<and>
   snd (LoopIdleTime ex_env) \<noteq> spec_idle_time_seconds ex_env"
  by (simp add: LoopIdleTime_def spec_idle_time_seconds_def uv_metrics_idle_time_def ex_env_def)

text \<open>
  Claim C7, as amended.  \<open>LoopIdleTime\<close> leaves the environment unchanged and returns
  the idle time of the loop in milliseconds: the nanoseconds of the loop divided by
  \<open>1e6\<close>, a thousand times the number of seconds.
\<close>

theorem loop_idle_time_millis:
  "fst (LoopIdleTime env) = env \<and>
   snd (LoopIdleTime env) * NANOS_PER_MILLIS = real (unat (uv_metrics_idle_time (event_loop env))) \<and>
   snd (LoopIdleTime env) = 1000 * spec_idle_time_seconds env"
  by (simp add: LoopIdleTime_def spec_idle_time_seconds_def NANOS_PER_MILLIS_def)

section \<open>Marks and snapshots\<close>

lemma Mark_valid:
  assumes "0 \<le> m" "nat m < length (milestones st)"
  shows "Mark st m ts =
     Returned (st\<lparr>milestones := (milestones st)[nat m := real (unat ts)],
                 trace_events := trace_events st @ [(nat m, ts div 1000)]\<rparr>)"
  using assms by (simp add: Mark_def aliased_set_def)

text \<open>
  The clock hypothesis of the marks: no slot holds a value after the clock.  It holds in
  the state the constructor builds, and \<open>Mark\<close> keeps it as long as the clock does not
  go back.
\<close>

lemma new_state_before_clock:
  "\<forall>v \<in> set (milestones (PerformanceState_new c None)). v \<le> real (unat (now :: uint64))"
  by (simp add: PerformanceState_new_def reset_milestones_def del: of_nat_unat)

lemma Mark_keeps_before_clock:
  assumes "Mark st m ts = Returned st'" "ts \<le> now"
    and "\<forall>v \<in> set (milestones st). v \<le> real (unat ts)"
  shows "\<forall>v \<in> set (milestones st'). v \<le> real (unat now)"
proof
  fix v
  assume v: "v \<in> set (milestones st')"
  from assms(2) have le: "real (unat ts) \<le> real (unat now)"
    by (simp only: of_nat_le_iff word_le_nat_alt)
  from assms(1) have ms: "milestones st' = (milestones st)[nat m := real (unat ts)]"
    by (auto simp: Mark_def aliased_set_def split: if_splits)
  from v ms have "v \<in> insert (real (unat ts)) (set (milestones st))"
    using set_update_subset_insert [of "milestones st" "nat m" "real (unat ts)"] by auto
  with assms(3) le show "v \<le> real (unat now)" by (auto simp del: of_nat_unat)
qed

text \<open>
  Claim C8.  For a valid milestone, \<open>Mark\<close> with the clock value \<open>now\<close> returns, and a
  read of the slot then gives \<open>now\<close>, which is not the sentinel \<open>-1\<close>, and which is at
  least the value stored before when the clock has not gone back since that value was
  stored.
\<close>

theorem mark_monotonic:
  assumes len: "length (milestones st) = NODE_PERFORMANCE_MILESTONE_INVALID c"
    and valid: "0 \<le> m" "m < int (NODE_PERFORMANCE_MILESTONE_INVALID c)"
    and clock: "milestones st ! nat m \<le> real (unat now)"
  shows "\<exists>st'. Mark st m now = Returned st' \<and>
           aliased_get (milestones st') (nat m) = Some (real (unat now)) \<and>
           milestones st ! nat m \<le> milestones st' ! nat m \<and>
           milestones st' ! nat m \<noteq> - 1"
proof -
  from len valid have range: "nat m < length (milestones st)" by simp
  let ?st' = "st\<lparr>milestones := (milestones st)[nat m := real (unat now)],
                 trace_events := trace_events st @ [(nat m, now div 1000)]\<rparr>"
  have r: "Mark st m now = Returned ?st'" by (rule Mark_valid [OF valid(1) range])
  have v: "milestones ?st' ! nat m = real (unat now)" using range by simp
  have "(0::real) \<le> real (unat now)" by (rule of_nat_0_le_iff)
  then have s: "real (unat now) \<noteq> - 1" by (simp del: of_nat_unat)
  have g: "aliased_get (milestones ?st') (nat m) = Some (real (unat now))"
    using range by (simp add: aliased_get_def)
  from r g v clock s show ?thesis
    by (intro exI [where x = ?st']) (simp del: of_nat_unat)
qed

theorem mark_monotonic_witness:
  "length (milestones ex_marked_state) = NODE_PERFORMANCE_MILESTONE_INVALID ex_enums \<and>
   (0 :: int) \<le> 1 \<and> 1 < int (NODE_PERFORMANCE_MILESTONE_INVALID ex_enums) \<and>
   milestones ex_marked_state ! nat 1 \<le> real (unat (250 :: uint64)) \<and>
   Mark ex_state 1 100 = Returned ex_marked_state \<and>
   (\<exists>st'. Mark ex_marked_state 1 250 = Returned st' \<and>
      aliased_get (milestones st') (nat 1) = Some 250 \<and>
      milestones ex_marked_state ! nat 1 \<le> milestones st' ! nat 1 \<and>
      milestones st' ! nat 1 \<noteq> - 1)"
proof -
  have len: "length (milestones ex_marked_state) = NODE_PERFORMANCE_MILESTONE_INVALID ex_enums"
    by (simp add: ex_marked_state_def ex_enums_def NODE_PERFORMANCE_MILESTONE_INVALID_def)
  have v0: "(0 :: int) \<le> 1" by simp
  have v1: "1 < int (NODE_PERFORMANCE_MILESTONE_INVALID ex_enums)"
    by (simp add: ex_enums_def NODE_PERFORMANCE_MILESTONE_INVALID_def)
  have clock: "milestones ex_marked_state ! nat 1 \<le> real (unat (250 :: uint64))"
    by (simp add: ex_marked_state_def)
  have first: "Mark ex_state 1 100 = Returned ex_marked_state"
    by (simp add: Mark_def aliased_set_def ex_marked_state_def ex_state_def ex_enums_def
        PerformanceState_new_def reset_milestones_def NODE_PERFORMANCE_MILESTONE_INVALID_def)
  from mark_monotonic [OF len v0 v1 clock]
  have "\<exists>st'. Mark ex_marked_state 1 250 = Returned st' \<and>
      aliased_get (milestones st') (nat 1) = Some 250 \<and>
      milestones ex_marked_state ! nat 1 \<le> milestones st' ! nat 1 \<and>
      milestones st' ! nat 1 \<noteq> - 1"
    by simp
  with len v0 v1 clock first show ?thesis by (intro conjI)
qed

lemma Serialize_result:
  "PerformanceState_Serialize st ctx =
     (\<lparr>info_root = length ctx, info_milestones = Suc (length ctx),
        info_observers = Suc (Suc (length ctx))\<rparr>,
      ctx @ [SnapRoot, SnapFloat64 (milestones st), SnapUint32 (observers st)])"
  by (simp add: PerformanceState_Serialize_def AliasedBuffer_Serialize_def)

text \<open>
  Claim C9.  A state constructed from the \<open>SerializeInfo\<close> of \<open>Serialize\<close> and loaded
  by \<open>Deserialize\<close> from the data of that snapshot has the observer counters and the
  milestones of the serialized state; after the step that resets the milestones every
  slot holds \<open>-1\<close>, and the observer counters are still those of the serialized state.
\<close>

theorem snapshot_round_trip:
  assumes "PerformanceState_Serialize st ctx = (info, ctx')"
  shows "\<exists>st'. PerformanceState_Deserialize ctx' (PerformanceState_new c (Some info)) = Returned st' \<and>
     observers st' = observers st \<and>
     milestones st' = milestones st \<and>
     length (milestones (reinitialize_milestones st')) = length (milestones st) \<and>
     (\<forall>v \<in> set (milestones (reinitialize_milestones st')). v = - 1) \<and>
     observers (reinitialize_milestones st') = observers st"
proof -
  from assms have info: "info = \<lparr>info_root = length ctx, info_milestones = Suc (length ctx),
        info_observers = Suc (Suc (length ctx))\<rparr>"
    and ctx': "ctx' = ctx @ [SnapRoot, SnapFloat64 (milestones st), SnapUint32 (observers st)]"
    by (simp_all add: Serialize_result)
  let ?st' = "(PerformanceState_new c (Some info))\<lparr>milestones := milestones st,
                 observers := observers st, serialize_info := None\<rparr>"
  have "PerformanceState_Deserialize ctx' (PerformanceState_new c (Some info)) = Returned ?st'"
    by (simp add: PerformanceState_Deserialize_def PerformanceState_new_def
        AliasedBuffer_Deserialize_def info ctx' nth_append)
  then show ?thesis
    by (intro exI [where x = ?st'])
       (simp add: reinitialize_milestones_def reset_milestones_def)
qed

theorem snapshot_round_trip_witness:
  "PerformanceState_Serialize ex_marked_state [] =
     (\<lparr>info_root = 0, info_milestones = 1, info_observers = 2\<rparr>,
      [SnapRoot, SnapFloat64 [- 1, 100, - 1], SnapUint32 [1, 0]]) \<and>
   (\<exists>st'. PerformanceState_Deserialize [SnapRoot, SnapFloat64 [- 1, 100, - 1], SnapUint32 [1, 0]]
            (PerformanceState_new ex_enums
               (Some \<lparr>info_root = 0, info_milestones = 1, info_observers = 2\<rparr>)) = Returned st' \<and>
      observers st' = [1, 0] \<and> milestones st' = [- 1, 100, - 1] \<and>
      milestones (reinitialize_milestones st') = [- 1, - 1, - 1] \<and>
      observers (reinitialize_milestones st') = [1, 0])"
proof -
  have ser: "PerformanceState_Serialize ex_marked_state [] =
     (\<lparr>info_root = 0, info_milestones = 1, info_observers = 2\<rparr>,
      [SnapRoot, SnapFloat64 [- 1, 100, - 1], SnapUint32 [1, 0]])"
    by (simp add: Serialize_result ex_marked_state_def ex_state_def)
  have ms: "milestones ex_marked_state = [- 1, 100, - 1]"
    and os: "observers ex_marked_state = [1, 0]"
    by (simp_all add: ex_marked_state_def ex_state_def)
  from snapshot_round_trip [OF ser, of ex_enums] obtain st' where
    d: "PerformanceState_Deserialize [SnapRoot, SnapFloat64 [- 1, 100, - 1], SnapUint32 [1, 0]]
            (PerformanceState_new ex_enums
               (Some \<lparr>info_root = 0, info_milestones = 1, info_observers = 2\<rparr>)) = Returned st'"
    and o: "observers st' = observers ex_marked_state"
    and m: "milestones st' = milestones ex_marked_state"
    and l: "length (milestones (reinitialize_milestones st')) = length (milestones ex_marked_state)"
    and r: "\<forall>v \<in> set (milestones (reinitialize_milestones st')). v = - 1"
    and o': "observers (reinitialize_milestones st') = observers ex_marked_state"
    by (elim exE conjE)
  from l r ms have "milestones (reinitialize_milestones st') = [- 1, - 1, - 1]"
    by (cases "milestones (reinitialize_milestones st')" rule: list.exhaust)
       (auto simp: length_Suc_conv)
  with d o m o' ms os
  have "\<exists>st'. PerformanceState_Deserialize [SnapRoot, SnapFloat64 [- 1, 100, - 1], SnapUint32 [1, 0]]
            (PerformanceState_new ex_enums
               (Some \<lparr>info_root = 0, info_milestones = 1, info_observers = 2\<rparr>)) = Returned st' \<and>
      observers st' = [1, 0] \<and> milestones st' = [- 1, 100, - 1] \<and>
      milestones (reinitialize_milestones st') = [- 1, - 1, - 1] \<and>
      observers (reinitialize_milestones st') = [1, 0]"
    by (intro exI [where x = st']) simp
  with ser show ?thesis by (rule conjI)
qed

end
